theory Spec2Isabelle
  imports Complex_Main "HOL-Library.AList"
begin

section \<open>Common conventions\<close>

text \<open>
  The sources are \<^verbatim>\<open>src/src/PPO/PPOLearner.cpp\<close> (which also holds \<^verbatim>\<open>GameInst.cpp\<close>) and two
  revisions of \<^verbatim>\<open>Learner.cpp\<close>: the older \<^verbatim>\<open>src/unnamed/part_000\<close> and the newer
  \<^verbatim>\<open>src/unnamed/part_001\<close>.  Definitions taken from the older revision carry the suffix
  \<open>_v0\<close>; all others follow \<^verbatim>\<open>part_001\<close>.

  Numbers of type \<^verbatim>\<open>float\<close> and \<^verbatim>\<open>double\<close> are modelled as \<^typ>\<open>real\<close>: rounding, infinities
  and NaN are outside the model.  Integers are modelled as \<^typ>\<open>int\<close>; no claim below depends
  on wrap-around.  A fatal error (\<^verbatim>\<open>RG_ERR_CLOSE\<close>) or an escaping exception is the left
  summand of a result, carrying the message.
\<close>

type_synonym 'a result = "string + 'a"

text \<open>Integer division of C++: the quotient is truncated toward zero; a zero divisor is
  undefined behaviour, written out as \<open>None\<close>.\<close>

definition cpp_div :: "int \<Rightarrow> int \<Rightarrow> int option" where
  "cpp_div a b = (if b = 0 then None else Some (sgn a * sgn b * (\<bar>a\<bar> div \<bar>b\<bar>)))"

text \<open>Division of a float by a count.  A zero divisor would give an infinity or NaN; it is
  written out as \<open>None\<close>.\<close>

definition fdiv :: "real \<Rightarrow> int \<Rightarrow> real option" where
  "fdiv x n = (if n = 0 then None else Some (x / real_of_int n))"

text \<open>\<^verbatim>\<open>RS_MAX\<close> and \<^verbatim>\<open>RS_MIN\<close>.\<close>

definition RS_MAX :: "int \<Rightarrow> int \<Rightarrow> int" where
  "RS_MAX a b = (if a > b then a else b)"

definition RS_MIN :: "int \<Rightarrow> int \<Rightarrow> int" where
  "RS_MIN a b = (if a < b then a else b)"


section \<open>PPOLearner\<close>

text \<open>The fields of \<^verbatim>\<open>PPOLearnerConfig\<close> that \<^verbatim>\<open>PPOLearner::Learn\<close> reads.  The header is not
  among the sources; \<^verbatim>\<open>batchSize\<close> and \<^verbatim>\<open>miniBatchSize\<close> are integers, as their use as a tensor
  dimension (\<^verbatim>\<open>view({ config.batchSize, -1 })\<close>), as a loop bound and stride of an \<^verbatim>\<open>int\<close>
  counter and as slice bounds shows.\<close>

record PPOLearnerConfig =
  batchSize :: int
  miniBatchSize :: int
  epochs :: int
  clipRange :: real
  entCoef :: real

text \<open>The constructor's adjustment of the configuration.\<close>

definition PPOLearner_config :: "PPOLearnerConfig \<Rightarrow> PPOLearnerConfig" where
  "PPOLearner_config cfg =
     (if miniBatchSize cfg = 0 then cfg\<lparr>miniBatchSize := batchSize cfg\<rparr> else cfg)"

text \<open>\<^verbatim>\<open>float batchSizeRatio = config.miniBatchSize / config.batchSize;\<close>
  The quotient is formed on integers and converted afterwards.\<close>

definition batchSizeRatio :: "PPOLearnerConfig \<Rightarrow> real option" where
  "batchSizeRatio cfg = map_option real_of_int (cpp_div (miniBatchSize cfg) (batchSize cfg))"

text \<open>\<^verbatim>\<open>auto ppoLoss = (policyLoss - entropy * config.entCoef) * batchSizeRatio;\<close>\<close>

definition ppoLoss :: "PPOLearnerConfig \<Rightarrow> real \<Rightarrow> real \<Rightarrow> real option" where
  "ppoLoss cfg policyLoss entropy =
     map_option (\<lambda>r. (policyLoss - entropy * entCoef cfg) * r) (batchSizeRatio cfg)"

text \<open>The mean of a tensor; the mean of an empty tensor is NaN, written out as \<open>None\<close>.\<close>

definition mean :: "real list \<Rightarrow> real option" where
  "mean xs = fdiv (sum_list xs) (int (length xs))"

text \<open>\<^verbatim>\<open>auto ratio = exp(logProbs - oldProbs);\<close>\<close>

definition ratio_of :: "real list \<Rightarrow> real list \<Rightarrow> real list" where
  "ratio_of logProbs oldProbs = map2 (\<lambda>l p. exp (l - p)) logProbs oldProbs"

text \<open>\<^verbatim>\<open>clamp(ratio, 1 - config.clipRange, 1 + config.clipRange)\<close>, elementwise
  \<open>min (max x lo) hi\<close>.\<close>

definition clamp :: "real list \<Rightarrow> real \<Rightarrow> real \<Rightarrow> real list" where
  "clamp xs lo hi = map (\<lambda>x. min (max x lo) hi) xs"

text \<open>\<^verbatim>\<open>-min(ratio * advantages, clipped * advantages).mean()\<close>\<close>

definition policyLoss_of :: "PPOLearnerConfig \<Rightarrow> real list \<Rightarrow> real list \<Rightarrow> real option" where
  "policyLoss_of cfg ratio advantages =
     (let clipped = clamp ratio (1 - clipRange cfg) (1 + clipRange cfg) in
      map_option uminus
        (mean (map2 min (map2 (*) ratio advantages) (map2 (*) clipped advantages))))"

text \<open>\<^verbatim>\<open>(abs(ratio - 1) > config.clipRange).to(kFloat)\<close>: one entry of the indicator tensor.\<close>

definition clip_indicator :: "PPOLearnerConfig \<Rightarrow> real \<Rightarrow> real" where
  "clip_indicator cfg r = (if \<bar>r - 1\<bar> > clipRange cfg then 1 else 0)"

text \<open>\<^verbatim>\<open>clipFraction = mean((abs(ratio - 1) > config.clipRange).to(kFloat))\<close>\<close>

definition clipFraction :: "PPOLearnerConfig \<Rightarrow> real list \<Rightarrow> real option" where
  "clipFraction cfg ratio = mean (map (clip_indicator cfg) ratio)"

text \<open>\<^verbatim>\<open>kl = ((exp(logRatio) - 1) - logRatio).mean()\<close>\<close>

definition kl_of :: "real list \<Rightarrow> real list \<Rightarrow> real option" where
  "kl_of logProbs oldProbs =
     mean (map2 (\<lambda>l p. (exp (l - p) - 1) - (l - p)) logProbs oldProbs)"


subsection \<open>The metrics of one optimisation pass\<close>















section \<open>Strings, numbers and paths\<close>

text \<open>\<^verbatim>\<open>std::to_string\<close> on an integer: its decimal digits, with a minus sign when negative.\<close>

fun string_of_nat :: "nat \<Rightarrow> string" where
  "string_of_nat n =
     (if n < 10 then [''0123456789'' ! n]
      else string_of_nat (n div 10) @ [''0123456789'' ! (n mod 10)])"

declare string_of_nat.simps [simp del]

definition to_string :: "int \<Rightarrow> string" where
  "to_string i = (if i < 0 then CHR ''-'' # string_of_nat (nat (- i)) else string_of_nat (nat i))"

text \<open>\<^verbatim>\<open>std::stoll\<close> (base 10), as the C++ standard describes it through \<^verbatim>\<open>strtoll\<close>: leading
  white space is skipped, one sign is accepted, then the longest run of digits is read and
  whatever follows it is left unread.  No digit at all is \<^verbatim>\<open>std::invalid_argument\<close> and a
  value outside 64 bits is \<^verbatim>\<open>std::out_of_range\<close>; both are \<open>None\<close>.\<close>

definition isspace :: "char \<Rightarrow> bool" where
  "isspace c = (c \<in> set [CHR '' '', CHR 0x09, CHR 0x0A, CHR 0x0B, CHR 0x0C, CHR 0x0D])"

definition isdigit :: "char \<Rightarrow> bool" where
  "isdigit c = (c \<in> set ''0123456789'')"

definition digit_val :: "char \<Rightarrow> int" where
  "digit_val c = int (of_char c) - 48"

definition digits_val :: "string \<Rightarrow> int" where
  "digits_val ds = foldl (\<lambda>acc c. acc * 10 + digit_val c) 0 ds"

definition INT64_MAX :: int where
  "INT64_MAX = 9223372036854775807"

definition INT64_MIN :: int where
  "INT64_MIN = - 9223372036854775808"

definition stoll :: "string \<Rightarrow> int option" where
  "stoll str =
     (let s1 = dropWhile isspace str;
          neg = (s1 \<noteq> [] \<and> hd s1 = CHR ''-'');
          s2 = (if s1 \<noteq> [] \<and> (hd s1 = CHR ''-'' \<or> hd s1 = CHR ''+'') then tl s1 else s1);
          ds = takeWhile isdigit s2;
          v = (if neg then - digits_val ds else digits_val ds)
      in if ds = [] then None
         else if v < INT64_MIN \<or> INT64_MAX < v then None
         else Some v)"

text \<open>A \<^verbatim>\<open>std::filesystem::path\<close> is the list of its components; the empty path is \<open>[]\<close> and
  \<^verbatim>\<open>folder / name\<close> appends a component.  Streaming a path prints it between double quotes.\<close>

type_synonym path = "string list"

fun join_path :: "path \<Rightarrow> string" where
  "join_path [] = []"
| "join_path [c] = c"
| "join_path (c # cs) = c @ ''/'' @ join_path cs"

definition show_path :: "path \<Rightarrow> string" where
  "show_path p = [CHR 0x22] @ join_path p @ [CHR 0x22]"


section \<open>Files\<close>

text \<open>The reward statistics (\<^verbatim>\<open>WelfordRunningStat\<close>; its header is not among the sources).\<close>

record WelfordRunningStat =
  runningMean :: "real list"
  runningVariance :: "real list"
  shape :: int
  count :: int

text \<open>Modelled from the spec: \<^verbatim>\<open>WelfordRunningStat\<close>'s constructor is missing from the sources.
  The spec lists mean, variance, count and shape as the state of the accumulator; a new one of
  a given shape has that shape, zeroed mean and variance vectors of that length, and count 0.\<close>

definition WelfordRunningStat_new :: "int \<Rightarrow> WelfordRunningStat" where
  "WelfordRunningStat_new sh =
     \<lparr>runningMean = replicate (nat sh) 0, runningVariance = replicate (nat sh) 0,
      shape = sh, count = 0\<rparr>"

text \<open>The JSON document of the stats file, by key.\<close>

record stats_json =
  cumulative_timesteps :: int
  cumulative_model_updates :: int
  epoch :: int
  rrs_mean :: "real list"
  rrs_var :: "real list"
  rrs_shape :: int
  rrs_count :: int
  run_id :: "string option"

text \<open>A network is the list of its parameter tensors, each flattened; an optimiser's state
  is a list of numbers.  What a file holds: a stats document, a serialised network, a
  serialised optimiser, or anything else.\<close>

type_synonym seq = "real list list"
type_synonym optim = "real list"

datatype file_data =
    StatsJson stats_json
  | TorchSeq seq
  | TorchOptim optim
  | Other string

datatype entry = EDir | EFile file_data

text \<open>The file system: the entries by path.  The working directory (the parent of a
  one-component path) always exists; the empty path names nothing.\<close>

type_synonym fs = "(path \<times> entry) list"

definition exists_path :: "fs \<Rightarrow> path \<Rightarrow> bool" where
  "exists_path fs p = (p \<noteq> [] \<and> map_of fs p \<noteq> None)"

definition is_directory :: "fs \<Rightarrow> path \<Rightarrow> bool" where
  "is_directory fs p = (p \<noteq> [] \<and> map_of fs p = Some EDir)"

definition parent_ok :: "fs \<Rightarrow> path \<Rightarrow> bool" where
  "parent_ok fs p = (p \<noteq> [] \<and> (butlast p = [] \<or> is_directory fs (butlast p)))"

text \<open>\<^verbatim>\<open>std::filesystem::directory_iterator(folder)\<close>: the entries of the folder, each with its
  name and whether it is a directory; it throws when the folder is not a directory.\<close>

definition directory_iterator :: "fs \<Rightarrow> path \<Rightarrow> (string \<times> bool) list option" where
  "directory_iterator fs folder =
     (if is_directory fs folder
      then Some (map (\<lambda>(q, e). (last q, e = EDir))
                  (filter (\<lambda>(q, e). q \<noteq> [] \<and> butlast q = folder) fs))
      else None)"

text \<open>\<^verbatim>\<open>std::filesystem::create_directories\<close>: every missing directory along the path is
  created; it throws when a component exists and is a file.\<close>

fun create_dirs_from :: "fs \<Rightarrow> path \<Rightarrow> string list \<Rightarrow> fs option" where
  "create_dirs_from fs pre [] = Some fs"
| "create_dirs_from fs pre (c # cs) =
     (case map_of fs (pre @ [c]) of
        None \<Rightarrow> create_dirs_from (fs @ [(pre @ [c], EDir)]) (pre @ [c]) cs
      | Some EDir \<Rightarrow> create_dirs_from fs (pre @ [c]) cs
      | Some (EFile d) \<Rightarrow> None)"

definition create_directories :: "fs \<Rightarrow> path \<Rightarrow> fs option" where
  "create_directories fs p = create_dirs_from fs [] p"

text \<open>\<^verbatim>\<open>std::ofstream(path)\<close> followed by the write: the file is created or replaced; the
  stream is not good when the parent is missing or the path is a directory.\<close>

definition write_file :: "fs \<Rightarrow> path \<Rightarrow> file_data \<Rightarrow> fs option" where
  "write_file fs p d =
     (if parent_ok fs p \<and> \<not> is_directory fs p then Some (AList.update p (EFile d) fs) else None)"

text \<open>\<^verbatim>\<open>std::ifstream(path)\<close> and reading it: the contents, if it is a file.\<close>

definition read_file :: "fs \<Rightarrow> path \<Rightarrow> file_data option" where
  "read_file fs p =
     (if p = [] then None else case map_of fs p of Some (EFile d) \<Rightarrow> Some d | _ \<Rightarrow> None)"

text \<open>\<^verbatim>\<open>std::filesystem::remove_all(path)\<close>: the path and everything below it is removed;
  removing what does not exist removes nothing.\<close>

definition remove_all :: "fs \<Rightarrow> path \<Rightarrow> fs" where
  "remove_all fs p =
     (if p = [] then fs else filter (\<lambda>(q, e). take (length p) q \<noteq> p) fs)"


section \<open>Saving and loading the networks (\<^verbatim>\<open>PPOLearner.cpp\<close>)\<close>

text \<open>The part of the learner that a checkpoint holds.\<close>

record ppo_state =
  policy :: seq
  valueNet :: seq
  policyOptimizer :: optim
  valueOptimizer :: optim
  cumulativeModelUpdates :: int

text \<open>libtorch's serialisation is a collaborator:
  \<^item> \<open>torch_load seq file\<close> is \<^verbatim>\<open>torch::load(seq, streamIn, device)\<close> on the contents of the
    stream (\<open>None\<close> when the stream could not be opened): the network as it is afterwards,
    or the \<^verbatim>\<open>what()\<close> of the exception;
  \<^item> \<open>torch_save\<close> is \<^verbatim>\<open>torch::save\<close>;
  \<^item> \<open>optim_load\<close> and \<open>optim_save\<close> are an archive's \<^verbatim>\<open>load_from\<close> followed by the
    optimiser's \<^verbatim>\<open>load\<close>, and the optimiser's \<^verbatim>\<open>save\<close> followed by \<^verbatim>\<open>save_to\<close>.\<close>

record torch_io =
  torch_load :: "seq \<Rightarrow> file_data option \<Rightarrow> string + seq"
  torch_save :: "seq \<Rightarrow> file_data"
  optim_load :: "optim \<Rightarrow> file_data option \<Rightarrow> string + optim"
  optim_save :: "optim \<Rightarrow> file_data"

text \<open>\<^verbatim>\<open>GetSeqSizes\<close>: the number of elements of every parameter.\<close>

definition GetSeqSizes :: "seq \<Rightarrow> nat list" where
  "GetSeqSizes sq = map length sq"

text \<open>The messages of the fatal errors, as the code streams them.\<close>

definition msg_load_failed :: "string \<Rightarrow> string" where
  "msg_load_failed what =
     ''Failed to load model, checkpoint may be corrupt.'' @ [CHR 0x0A] @ ''Exception: '' @ what"

definition show_sizes :: "nat list \<Rightarrow> string" where
  "show_sizes sizes = concat (map (\<lambda>n. string_of_nat n @ '' '') sizes)"

definition msg_size_mismatch :: "path \<Rightarrow> nat list \<Rightarrow> nat list \<Rightarrow> string" where
  "msg_size_mismatch p sizesBefore sizesAfter =
     ''Saved model has different size than current model, cannot load model from ''
       @ show_path p @ '':'' @ [CHR 0x0A]
       @ '' > '' @ ''Current model: [ '' @ show_sizes sizesBefore @ '' ]'' @ '','' @ [CHR 0x0A]
       @ '' > '' @ ''Saved model:   [ '' @ show_sizes sizesAfter @ '' ]''"

definition msg_file_missing :: "string \<Rightarrow> path \<Rightarrow> string" where
  "msg_file_missing fileName folderPath =
     ''PPOLearner: Failed to find file '' @ [CHR 0x22] @ fileName @ [CHR 0x22] @ '' in ''
       @ show_path folderPath @ ''.''"

definition msg_optim_failed :: "string \<Rightarrow> string" where
  "msg_optim_failed what =
     ''Failed to load optimizers, exception: '' @ what @ [CHR 0x0A] @ ''Checkpoint may be corrupt.''"

text \<open>\<^verbatim>\<open>TorchLoadSaveSeq\<close>, the two directions apart.\<close>

definition TorchLoadSaveSeq_load :: "torch_io \<Rightarrow> seq \<Rightarrow> fs \<Rightarrow> path \<Rightarrow> seq result" where
  "TorchLoadSaveSeq_load io sq fs p =
     (let sizesBefore = GetSeqSizes sq in
      case torch_load io sq (read_file fs p) of
        Inl what \<Rightarrow> Inl (msg_load_failed what)
      | Inr sq' \<Rightarrow>
          (let sizesAfter = GetSeqSizes sq' in
           if sizesBefore \<noteq> sizesAfter then Inl (msg_size_mismatch p sizesBefore sizesAfter)
           else Inr sq'))"

text \<open>Saving checks nothing: a stream that could not be opened leaves the files as they are.\<close>

definition write_unchecked :: "fs \<Rightarrow> path \<Rightarrow> file_data \<Rightarrow> fs" where
  "write_unchecked fs p d = (case write_file fs p d of None \<Rightarrow> fs | Some fs' \<Rightarrow> fs')"

definition TorchLoadSaveSeq_save :: "torch_io \<Rightarrow> seq \<Rightarrow> fs \<Rightarrow> path \<Rightarrow> fs" where
  "TorchLoadSaveSeq_save io sq fs p = write_unchecked fs p (torch_save io sq)"

definition FILE_NAMES :: "string list" where
  "FILE_NAMES = [''PPO_POLICY.lt'', ''PPO_VALUE_NET.lt'',
                 ''PPO_POLICY_OPTIMIZER.lt'', ''PPO_VALUE_NET_OPTIMIZER.lt'']"

text \<open>The first of the file names that is missing from the folder.\<close>

definition first_missing :: "fs \<Rightarrow> path \<Rightarrow> string option" where
  "first_missing fs folderPath =
     (case filter (\<lambda>fileName. \<not> exists_path fs (folderPath @ [fileName])) FILE_NAMES of
        [] \<Rightarrow> None
      | fileName # _ \<Rightarrow> Some fileName)"

text \<open>\<^verbatim>\<open>TorchLoadSaveAll\<close> with \<^verbatim>\<open>load = true\<close>.\<close>

definition TorchLoadSaveAll_load :: "torch_io \<Rightarrow> ppo_state \<Rightarrow> fs \<Rightarrow> path \<Rightarrow> ppo_state result" where
  "TorchLoadSaveAll_load io learner fs folderPath =
     (case first_missing fs folderPath of
        Some fileName \<Rightarrow> Inl (msg_file_missing fileName folderPath)
      | None \<Rightarrow>
        (case TorchLoadSaveSeq_load io (policy learner) fs (folderPath @ [FILE_NAMES ! 0]) of
           Inl e \<Rightarrow> Inl e
         | Inr policy' \<Rightarrow>
           (case TorchLoadSaveSeq_load io (valueNet learner) fs (folderPath @ [FILE_NAMES ! 1]) of
              Inl e \<Rightarrow> Inl e
            | Inr valueNet' \<Rightarrow>
              (case optim_load io (policyOptimizer learner)
                      (read_file fs (folderPath @ [FILE_NAMES ! 2])) of
                 Inl what \<Rightarrow> Inl (msg_optim_failed what)
               | Inr policyOptimizer' \<Rightarrow>
                 (case optim_load io (valueOptimizer learner)
                         (read_file fs (folderPath @ [FILE_NAMES ! 3])) of
                    Inl what \<Rightarrow> Inl (msg_optim_failed what)
                  | Inr valueOptimizer' \<Rightarrow>
                      Inr (learner\<lparr>policy := policy', valueNet := valueNet',
                             policyOptimizer := policyOptimizer',
                             valueOptimizer := valueOptimizer'\<rparr>))))))"

text \<open>\<^verbatim>\<open>TorchLoadSaveAll\<close> with \<^verbatim>\<open>load = false\<close>.\<close>

definition TorchLoadSaveAll_save :: "torch_io \<Rightarrow> ppo_state \<Rightarrow> fs \<Rightarrow> path \<Rightarrow> fs" where
  "TorchLoadSaveAll_save io learner fs folderPath =
     (let fs1 = TorchLoadSaveSeq_save io (policy learner) fs (folderPath @ [FILE_NAMES ! 0]);
          fs2 = TorchLoadSaveSeq_save io (valueNet learner) fs1 (folderPath @ [FILE_NAMES ! 1]);
          fs3 = write_unchecked fs2 (folderPath @ [FILE_NAMES ! 2])
                  (optim_save io (policyOptimizer learner))
      in write_unchecked fs3 (folderPath @ [FILE_NAMES ! 3])
           (optim_save io (valueOptimizer learner)))"

definition SaveTo :: "torch_io \<Rightarrow> ppo_state \<Rightarrow> fs \<Rightarrow> path \<Rightarrow> fs" where
  "SaveTo io learner fs folderPath = TorchLoadSaveAll_save io learner fs folderPath"

text \<open>\<^verbatim>\<open>PPOLearner::LoadFrom\<close> with \<^verbatim>\<open>isFromPython = false\<close>, the only way \<^verbatim>\<open>Learner::Load\<close>
  calls it.  (The half-precision copy and the learning rates are not modelled.)\<close>

definition LoadFrom :: "torch_io \<Rightarrow> ppo_state \<Rightarrow> fs \<Rightarrow> path \<Rightarrow> ppo_state result" where
  "LoadFrom io learner fs folderPath =
     (if \<not> is_directory fs folderPath
      then Inl (''PPOLearner:LoadFrom(): Path '' @ show_path folderPath @ '' is not a valid directory'')
      else TorchLoadSaveAll_load io learner fs folderPath)"


section \<open>The learner (\<^verbatim>\<open>Learner.cpp\<close>)\<close>

datatype LearnerDeviceType = AUTO | CPU | GPU_CUDA

datatype device = kCPU | kCUDA

record LearnerConfig =
  checkpointLoadFolder :: path
  checkpointSaveFolder :: path
  checkpointsToKeep :: int
  sendMetrics :: bool
  deviceType :: LearnerDeviceType

text \<open>The counters and statistics of \<^verbatim>\<open>Learner\<close>, its \<^verbatim>\<open>PPOLearner\<close>, and the run identifier
  of its metric sender.\<close>

record Learner =
  totalTimesteps :: int
  totalEpochs :: int
  returnStats :: WelfordRunningStat
  runID :: string
  curRunID :: string
  ppo :: ppo_state

definition STATS_FILE_NAME :: string where
  "STATS_FILE_NAME = ''RUNNING_STATS.json''"

subsection \<open>The device (both revisions)\<close>

text \<open>What libtorch answers: whether CUDA is available, and whether moving a tensor to a
  device succeeds (\<open>False\<close>: the call throws).\<close>

record cuda_env =
  cuda_is_available :: bool
  tensor_to_ok :: "device \<Rightarrow> bool"

definition msg_no_cuda :: "bool \<Rightarrow> string" where
  "msg_no_cuda available =
     ''Learner::Learner(): Can't use CUDA GPU because ''
       @ (if available then ''libtorch cannot access the GPU''
          else ''CUDA is not available to libtorch'')
       @ ''.'' @ [CHR 0x0A]
       @ ''Make sure your libtorch comes with CUDA support, and that CUDA is installed properly.''"

text \<open>The constructor's choice of the device.  The member \<^verbatim>\<open>device\<close> is initialised to the CPU
  device in the initialiser list and is assigned only after the test, so the test's
  \<^verbatim>\<open>t.to(device)\<close> moves the tensor to the CPU device.\<close>

definition Learner_device :: "cuda_env \<Rightarrow> LearnerConfig \<Rightarrow> device result" where
  "Learner_device env config =
     (let device0 = kCPU in
      if deviceType config = GPU_CUDA \<or> (deviceType config = AUTO \<and> cuda_is_available env)
      then
        (let deviceTestFailed = \<not> (tensor_to_ok env device0 \<and> tensor_to_ok env kCPU) in
         if \<not> cuda_is_available env \<or> deviceTestFailed
         then Inl (msg_no_cuda (cuda_is_available env))
         else Inr kCUDA)
      else Inr kCPU)"

subsection \<open>The stats file\<close>

definition msg_cant_open :: "string \<Rightarrow> path \<Rightarrow> string" where
  "msg_cant_open prefix p = prefix @ ''Can't open file at '' @ show_path p"

text \<open>\<^verbatim>\<open>Learner::SaveStats\<close> (\<^verbatim>\<open>part_001\<close>).\<close>

definition SaveStats :: "LearnerConfig \<Rightarrow> Learner \<Rightarrow> fs \<Rightarrow> path \<Rightarrow> fs result" where
  "SaveStats config st fs p =
     (let j = \<lparr>cumulative_timesteps = totalTimesteps st,
               cumulative_model_updates = cumulativeModelUpdates (ppo st),
               epoch = totalEpochs st,
               rrs_mean = runningMean (returnStats st),
               rrs_var = runningVariance (returnStats st),
               rrs_shape = shape (returnStats st),
               rrs_count = count (returnStats st),
               run_id = (if sendMetrics config then Some (curRunID st) else None)\<rparr>
      in case write_file fs p (StatsJson j) of
           None \<Rightarrow> Inl (msg_cant_open ''Learner::SaveStats(): '' p)
         | Some fs' \<Rightarrow> Inr fs')"

text \<open>\<^verbatim>\<open>Learner::SaveStats\<close> (\<^verbatim>\<open>part_000\<close>): the same document without a run identifier.\<close>

definition SaveStats_v0 :: "Learner \<Rightarrow> fs \<Rightarrow> path \<Rightarrow> fs result" where
  "SaveStats_v0 st fs p =
     (let j = \<lparr>cumulative_timesteps = totalTimesteps st,
               cumulative_model_updates = cumulativeModelUpdates (ppo st),
               epoch = totalEpochs st,
               rrs_mean = runningMean (returnStats st),
               rrs_var = runningVariance (returnStats st),
               rrs_shape = shape (returnStats st),
               rrs_count = count (returnStats st),
               run_id = None\<rparr>
      in case write_file fs p (StatsJson j) of
           None \<Rightarrow> Inl (msg_cant_open ''Learner::SaveStats(): '' p)
         | Some fs' \<Rightarrow> Inr fs')"

text \<open>\<^verbatim>\<open>Learner::LoadStats\<close> (\<^verbatim>\<open>part_001\<close>).  A file that is not a stats document makes
  \<^verbatim>\<open>json::parse\<close> throw.\<close>

definition LoadStats :: "Learner \<Rightarrow> fs \<Rightarrow> path \<Rightarrow> Learner result" where
  "LoadStats st fs p =
     (case read_file fs p of
        None \<Rightarrow> Inl (msg_cant_open ''Learner::LoadStats(): '' p)
      | Some (StatsJson j) \<Rightarrow>
          Inr (st\<lparr>totalTimesteps := cumulative_timesteps j,
                  ppo := (ppo st)\<lparr>cumulativeModelUpdates := cumulative_model_updates j\<rparr>,
                  totalEpochs := epoch j,
                  returnStats := (WelfordRunningStat_new (rrs_shape j))
                     \<lparr>runningMean := rrs_mean j, runningVariance := rrs_var j,
                      count := rrs_count j\<rparr>,
                  runID := (case run_id j of Some r \<Rightarrow> r | None \<Rightarrow> runID st)\<rparr>)
      | Some _ \<Rightarrow> Inl ''json.exception.parse_error'')"

subsection \<open>Saving a checkpoint\<close>

text \<open>The loop over the folder in \<^verbatim>\<open>Learner::Save\<close>, its body first: the number of
  directories whose name \<^verbatim>\<open>std::stoll\<close> accepts, and the lowest of their values.\<close>

definition Save_step :: "int \<times> int \<Rightarrow> string \<times> bool \<Rightarrow> int \<times> int" where
  "Save_step acc ent =
     (case acc of (numCheckpoints, lowestCheckpointTS) \<Rightarrow>
      case ent of (name, isdir) \<Rightarrow>
        if isdir then
          (case stoll name of
             Some nameVal \<Rightarrow> (numCheckpoints + 1, RS_MIN nameVal lowestCheckpointTS)
           | None \<Rightarrow> (numCheckpoints, lowestCheckpointTS))
        else (numCheckpoints, lowestCheckpointTS))"

definition Save_scan :: "(string \<times> bool) list \<Rightarrow> int \<times> int" where
  "Save_scan entries = foldl Save_step (0, INT64_MAX) entries"

definition msg_remove_failed :: "path \<Rightarrow> string \<Rightarrow> string" where
  "msg_remove_failed removePath what =
     ''Failed to remove old checkpoint from '' @ show_path removePath @ '', exception: '' @ what"

text \<open>\<^verbatim>\<open>Learner::Save\<close> (\<^verbatim>\<open>part_001\<close>).  \<open>remove_throws p\<close> is the \<^verbatim>\<open>what()\<close> of the exception
  that removing \<open>p\<close> raises, if it raises one.  The folder that is listed and pruned is
  \<^verbatim>\<open>config.checkpointLoadFolder\<close>.\<close>

definition Save ::
  "torch_io \<Rightarrow> (path \<Rightarrow> string option) \<Rightarrow> LearnerConfig \<Rightarrow> Learner \<Rightarrow> fs \<Rightarrow> fs result"
where
  "Save io remove_throws config st fs =
     (if checkpointSaveFolder config = []
      then Inl ''Learner::Save(): Cannot save because config.checkpointSaveFolder is not set''
      else
        (let saveFolder = checkpointSaveFolder config @ [to_string (totalTimesteps st)] in
         case create_directories fs saveFolder of
           None \<Rightarrow> Inl ''filesystem error: cannot create directories''
         | Some fs1 \<Rightarrow>
           (case SaveStats config st fs1 (saveFolder @ [STATS_FILE_NAME]) of
              Inl e \<Rightarrow> Inl e
            | Inr fs2 \<Rightarrow>
              (let fs3 = SaveTo io (ppo st) fs2 saveFolder in
               if checkpointsToKeep config \<noteq> - 1 then
                 (case directory_iterator fs3 (checkpointLoadFolder config) of
                    None \<Rightarrow> Inl ''filesystem error: directory iterator cannot open directory''
                  | Some entries \<Rightarrow>
                      (let numCheckpoints = fst (Save_scan entries);
                           lowestCheckpointTS = snd (Save_scan entries)
                       in if numCheckpoints > checkpointsToKeep config then
                            (let removePath =
                                   checkpointLoadFolder config @ [to_string lowestCheckpointTS]
                             in case remove_throws removePath of
                                  Some what \<Rightarrow> Inl (msg_remove_failed removePath what)
                                | None \<Rightarrow> Inr (remove_all fs3 removePath))
                          else Inr fs3))
               else Inr fs3))))"

text \<open>\<^verbatim>\<open>Learner::Save\<close> (\<^verbatim>\<open>part_000\<close>): no pruning.\<close>

definition Save_v0 :: "torch_io \<Rightarrow> LearnerConfig \<Rightarrow> Learner \<Rightarrow> fs \<Rightarrow> fs result" where
  "Save_v0 io config st fs =
     (if checkpointSaveFolder config = []
      then Inl ''Learner::Save(): Cannot save because config.checkpointSaveFolder is not set''
      else
        (let saveFolder = checkpointSaveFolder config @ [to_string (totalTimesteps st)] in
         case create_directories fs saveFolder of
           None \<Rightarrow> Inl ''filesystem error: cannot create directories''
         | Some fs1 \<Rightarrow>
           (case SaveStats_v0 st fs1 (saveFolder @ [STATS_FILE_NAME]) of
              Inl e \<Rightarrow> Inl e
            | Inr fs2 \<Rightarrow> Inr (SaveTo io (ppo st) fs2 saveFolder))))"

subsection \<open>Loading a checkpoint\<close>

text \<open>The loop over the folder in \<^verbatim>\<open>Learner::Load\<close> (the same in both revisions), its body
  first: the highest value among the directories whose name \<^verbatim>\<open>std::stoll\<close> accepts, starting
  from \<open>-1\<close>.\<close>

definition Load_step :: "int \<Rightarrow> string \<times> bool \<Rightarrow> int" where
  "Load_step highest ent =
     (case ent of (name, isdir) \<Rightarrow>
        if isdir then
          (case stoll name of
             Some nameVal \<Rightarrow> RS_MAX nameVal highest
           | None \<Rightarrow> highest)
        else highest)"

definition Load_scan :: "(string \<times> bool) list \<Rightarrow> int" where
  "Load_scan entries = foldl Load_step (- 1) entries"

definition Load_highest :: "LearnerConfig \<Rightarrow> fs \<Rightarrow> int" where
  "Load_highest config fs =
     (case directory_iterator fs (checkpointLoadFolder config) of
        Some entries \<Rightarrow> Load_scan entries
      | None \<Rightarrow> - 1)"

text \<open>The folder that \<^verbatim>\<open>Learner::Load\<close> goes on to load, if it loads one.\<close>

definition Load_folder :: "LearnerConfig \<Rightarrow> fs \<Rightarrow> path option" where
  "Load_folder config fs =
     (let highest = Load_highest config fs in
      if highest \<noteq> - 1 then Some (checkpointLoadFolder config @ [to_string highest])
      else None)"

text \<open>\<^verbatim>\<open>Learner::Load\<close> (\<^verbatim>\<open>part_001\<close>).\<close>

definition Load :: "torch_io \<Rightarrow> LearnerConfig \<Rightarrow> Learner \<Rightarrow> fs \<Rightarrow> (Learner \<times> fs) result" where
  "Load io config st fs =
     (if checkpointLoadFolder config = []
      then Inl ''Learner::Load(): Cannot load because config.checkpointLoadFolder is not set''
      else
        (case Load_folder config fs of
           Some loadFolder \<Rightarrow>
             (case LoadStats st fs (loadFolder @ [STATS_FILE_NAME]) of
                Inl e \<Rightarrow> Inl e
              | Inr st1 \<Rightarrow>
                (case LoadFrom io (ppo st1) fs loadFolder of
                   Inl e \<Rightarrow> Inl e
                 | Inr ppo' \<Rightarrow> Inr (st1\<lparr>ppo := ppo'\<rparr>, fs)))
         | None \<Rightarrow> Inr (st, fs)))"

text \<open>\<^verbatim>\<open>Learner::Load\<close> (\<^verbatim>\<open>part_000\<close>): after choosing the folder it calls \<^verbatim>\<open>SaveStats\<close> on the
  checkpoint's stats file.\<close>

definition Load_v0 :: "torch_io \<Rightarrow> LearnerConfig \<Rightarrow> Learner \<Rightarrow> fs \<Rightarrow> (Learner \<times> fs) result" where
  "Load_v0 io config st fs =
     (if checkpointLoadFolder config = []
      then Inl ''Learner::Load(): Cannot load because config.checkpointLoadFolder is not set''
      else
        (case Load_folder config fs of
           Some loadFolder \<Rightarrow>
             (case SaveStats_v0 st fs (loadFolder @ [STATS_FILE_NAME]) of
                Inl e \<Rightarrow> Inl e
              | Inr fs1 \<Rightarrow>
                (case LoadFrom io (ppo st) fs1 loadFolder of
                   Inl e \<Rightarrow> Inl e
                 | Inr ppo' \<Rightarrow> Inr (st\<lparr>ppo := ppo'\<rparr>, fs1)))
         | None \<Rightarrow> Inr (st, fs)))"

text \<open>The end of the constructor: \<^verbatim>\<open>if (!config.checkpointLoadFolder.empty()) Load();\<close>\<close>

definition Learner_resume ::
  "torch_io \<Rightarrow> LearnerConfig \<Rightarrow> Learner \<Rightarrow> fs \<Rightarrow> (Learner \<times> fs) result" where
  "Learner_resume io config st fs =
     (if checkpointLoadFolder config \<noteq> [] then Load io config st fs else Inr (st, fs))"

definition Learner_resume_v0 ::
  "torch_io \<Rightarrow> LearnerConfig \<Rightarrow> Learner \<Rightarrow> fs \<Rightarrow> (Learner \<times> fs) result" where
  "Learner_resume_v0 io config st fs =
     (if checkpointLoadFolder config \<noteq> [] then Load_v0 io config st fs else Inr (st, fs))"


section \<open>One step of a game instance (\<^verbatim>\<open>GameInst::Step\<close>)\<close>

text \<open>The result of \<^verbatim>\<open>gym->Step\<close>, over an observation type \<open>'o\<close>; \<open>done_flag\<close> is its
  field \<^verbatim>\<open>done\<close>.\<close>

record 'o StepResult =
  obs :: 'o
  reward :: "real list"
  done_flag :: bool

text \<open>The members of \<^verbatim>\<open>GameInst\<close> that \<^verbatim>\<open>Step\<close> writes.  The type of the running averages
  (\<^verbatim>\<open>avgStepRew\<close>, \<^verbatim>\<open>avgEpRew\<close>, \<^verbatim>\<open>avgEpLen\<close>) is declared in a header that is not among the
  sources; it is the parameter \<open>'a\<close>.\<close>

record ('a, 'o) GameInst =
  curObs :: 'o
  curEpRew :: real
  curEPLen :: int
  avgStepRew :: 'a
  avgEpRew :: 'a
  avgEpLen :: 'a
  totalSteps :: int

text \<open>The collaborators of a step:
  \<^item> \<open>gym_Step\<close> and \<open>gym_Reset\<close> are the gym's results for this step;
  \<^item> \<open>playerAmount\<close> is \<^verbatim>\<open>match->playerAmount\<close>;
  \<^item> \<open>avg_Add a total n\<close> is \<^verbatim>\<open>a.Add(total, n)\<close> and \<open>avg_plus a v\<close> is \<^verbatim>\<open>a += v\<close> on a
    running average;
  \<^item> \<open>stepCallback\<close> is the callback, if one is set; it receives the instance and may
    change it.\<close>

record ('a, 'o) step_env =
  gym_Step :: "'o StepResult"
  gym_Reset :: 'o
  playerAmount :: int
  avg_Add :: "'a \<Rightarrow> real \<Rightarrow> int \<Rightarrow> 'a"
  avg_plus :: "'a \<Rightarrow> real \<Rightarrow> 'a"
  stepCallback :: "(('a, 'o) GameInst \<Rightarrow> ('a, 'o) GameInst) option"

text \<open>\<^verbatim>\<open>GameInst::Step\<close>.  Reading \<^verbatim>\<open>stepResult.reward[i]\<close> beyond the list is undefined, and with
  no player the quotient \<^verbatim>\<open>totalRew / match->playerAmount\<close> is NaN; both are \<open>None\<close>.\<close>

definition Step ::
  "('a, 'o) step_env \<Rightarrow> ('a, 'o) GameInst \<Rightarrow> (('a, 'o) GameInst \<times> 'o StepResult) option"
where
  "Step env gi =
     (let stepResult = gym_Step env in
      if playerAmount env \<le> 0 \<or> int (length (reward stepResult)) < playerAmount env then None
      else
        (let totalRew = sum_list (take (nat (playerAmount env)) (reward stepResult));
             gi1 = gi\<lparr>avgStepRew := avg_Add env (avgStepRew gi) totalRew (playerAmount env),
                      curEpRew := curEpRew gi + totalRew / real_of_int (playerAmount env)\<rparr>;
             gi2 = (case stepCallback env of None \<Rightarrow> gi1 | Some cb \<Rightarrow> cb gi1);
             gi3 = gi2\<lparr>curEPLen := curEPLen gi2 + 1\<rparr>;
             nextObs = (if done_flag stepResult then gym_Reset env else obs stepResult);
             gi4 = (if done_flag stepResult
                    then gi3\<lparr>avgEpRew := avg_plus env (avgEpRew gi3) (curEpRew gi3),
                             avgEpLen := avg_plus env (avgEpLen gi3) (real_of_int (curEPLen gi3)),
                             curEpRew := 0,
                             curEPLen := 0\<rparr>
                    else gi3)
         in Some (gi4\<lparr>curObs := nextObs, totalSteps := totalSteps gi4 + 1\<rparr>,
                  stepResult\<lparr>obs := nextObs\<rparr>)))"


section \<open>Example inputs\<close>

text \<open>The concrete configurations, states and folders at which the theorems below are
  evaluated.\<close>

definition half_batch_config :: PPOLearnerConfig where
  "half_batch_config =
     \<lparr>batchSize = 50000, miniBatchSize = 25000, epochs = 1, clipRange = 1 / 5, entCoef = 1 / 100\<rparr>"



definition small_batch_config :: PPOLearnerConfig where
  "small_batch_config =
     \<lparr>batchSize = 4, miniBatchSize = 4, epochs = 2, clipRange = 1 / 5, entCoef = 1 / 100\<rparr>"



text \<open>The share of the step's reward that goes to the episode reward:
  \<^verbatim>\<open>totalRew / match->playerAmount\<close>.\<close>

definition step_reward :: "('a, 'o) step_env \<Rightarrow> real" where
  "step_reward env =
     sum_list (take (nat (playerAmount env)) (reward (gym_Step env)))
       / real_of_int (playerAmount env)"

text \<open>A two-player game whose running averages are kept as the list of the values added,
  with a callback that leaves the instance as it is.\<close>

definition two_player_env :: "bool \<Rightarrow> (real list, nat) step_env" where
  "two_player_env d = \<lparr>gym_Step = \<lparr>obs = 5, reward = [1, 3], done_flag = d\<rparr>, gym_Reset = 0,
     playerAmount = 2,
     avg_Add = (\<lambda>a t n. a @ [t / real_of_int n]), avg_plus = (\<lambda>a v. a @ [v]),
     stepCallback = Some (\<lambda>g. g\<lparr>totalSteps := totalSteps g\<rparr>)\<rparr>"

definition game_mid_episode :: "(real list, nat) GameInst" where
  "game_mid_episode = \<lparr>curObs = 4, curEpRew = 10, curEPLen = 3, avgStepRew = [],
     avgEpRew = [], avgEpLen = [], totalSteps = 3\<rparr>"

text \<open>A machine on which CUDA is reported as available while moving a tensor to the CUDA
  device fails.\<close>

definition broken_gpu :: cuda_env where
  "broken_gpu = \<lparr>cuda_is_available = True, tensor_to_ok = (\<lambda>d. d = kCPU)\<rparr>"

definition config_cuda :: LearnerConfig where
  "config_cuda = \<lparr>checkpointLoadFolder = [''checkpoints''],
     checkpointSaveFolder = [''checkpoints''], checkpointsToKeep = 5, sendMetrics = False,
     deviceType = GPU_CUDA\<rparr>"


text \<open>A serialiser that stores a network or an optimiser as it is and refuses anything
  else.\<close>

definition io_ref :: torch_io where
  "io_ref = \<lparr>
     torch_load = (\<lambda>sq f. case f of Some (TorchSeq sq') \<Rightarrow> Inr sq'
                                   | _ \<Rightarrow> Inl ''not a serialised module''),
     torch_save = TorchSeq,
     optim_load = (\<lambda>opt f. case f of Some (TorchOptim opt') \<Rightarrow> Inr opt'
                                    | _ \<Rightarrow> Inl ''not a serialised optimizer''),
     optim_save = TorchOptim\<rparr>"

text \<open>A learner some way into training, at a given number of timesteps, and a learner as
  constructed.\<close>

definition learner_at :: "int \<Rightarrow> Learner" where
  "learner_at ts = \<lparr>totalTimesteps = ts, totalEpochs = 3,
     returnStats = \<lparr>runningMean = [1 / 2], runningVariance = [2], shape = 1, count = 150\<rparr>,
     runID = [], curRunID = [],
     ppo = \<lparr>policy = [[1, 2], [3]], valueNet = [[4]], policyOptimizer = [5],
            valueOptimizer = [6], cumulativeModelUpdates = 7\<rparr>\<rparr>"

definition learner_new :: Learner where
  "learner_new = \<lparr>totalTimesteps = 0, totalEpochs = 0,
     returnStats = WelfordRunningStat_new 1,
     runID = [], curRunID = [],
     ppo = \<lparr>policy = [[0, 0], [0]], valueNet = [[0]], policyOptimizer = [0],
            valueOptimizer = [0], cumulativeModelUpdates = 0\<rparr>\<rparr>"

text \<open>Two configurations that keep two checkpoints: one loads from and saves to the same
  folder, the other loads from one folder and saves to another.\<close>

definition config_same :: LearnerConfig where
  "config_same = \<lparr>checkpointLoadFolder = [''checkpoints''],
     checkpointSaveFolder = [''checkpoints''], checkpointsToKeep = 2, sendMetrics = False,
     deviceType = CPU\<rparr>"

definition config_split :: LearnerConfig where
  "config_split = \<lparr>checkpointLoadFolder = [''pretrained''],
     checkpointSaveFolder = [''checkpoints''], checkpointsToKeep = 2, sendMetrics = False,
     deviceType = CPU\<rparr>"

text \<open>Three saves in a row, at 100, 200 and 300 timesteps, none of whose removals fails;
  and the names of the directories in a folder afterwards.\<close>

definition three_saves :: "LearnerConfig \<Rightarrow> fs \<Rightarrow> fs result" where
  "three_saves config fs0 =
     (case Save io_ref (\<lambda>p. None) config (learner_at 100) fs0 of
        Inl e \<Rightarrow> Inl e
      | Inr fs1 \<Rightarrow>
        (case Save io_ref (\<lambda>p. None) config (learner_at 200) fs1 of
           Inl e \<Rightarrow> Inl e
         | Inr fs2 \<Rightarrow> Save io_ref (\<lambda>p. None) config (learner_at 300) fs2))"

definition checkpoint_dirs :: "fs result \<Rightarrow> path \<Rightarrow> string list" where
  "checkpoint_dirs r folder =
     (case r of
        Inl e \<Rightarrow> []
      | Inr fs \<Rightarrow>
          (case directory_iterator fs folder of
             None \<Rightarrow> []
           | Some entries \<Rightarrow> map fst (filter snd entries)))"

text \<open>The stats document of a learner without a run identifier, and a checkpoint folder
  with given policy and value network files.\<close>

definition stats_of :: "Learner \<Rightarrow> stats_json" where
  "stats_of st = \<lparr>cumulative_timesteps = totalTimesteps st,
     cumulative_model_updates = cumulativeModelUpdates (ppo st),
     epoch = totalEpochs st,
     rrs_mean = runningMean (returnStats st),
     rrs_var = runningVariance (returnStats st),
     rrs_shape = shape (returnStats st),
     rrs_count = count (returnStats st),
     run_id = None\<rparr>"

definition checkpoint_files :: "path \<Rightarrow> stats_json \<Rightarrow> file_data \<Rightarrow> file_data \<Rightarrow> fs" where
  "checkpoint_files folder j policyFile valueFile =
     [(folder, EDir),
      (folder @ [''RUNNING_STATS.json''], EFile (StatsJson j)),
      (folder @ [''PPO_POLICY.lt''], EFile policyFile),
      (folder @ [''PPO_VALUE_NET.lt''], EFile valueFile),
      (folder @ [''PPO_POLICY_OPTIMIZER.lt''], EFile (TorchOptim [5])),
      (folder @ [''PPO_VALUE_NET_OPTIMIZER.lt''], EFile (TorchOptim [6]))]"

definition ckpt :: "file_data \<Rightarrow> file_data \<Rightarrow> fs" where
  "ckpt policyFile valueFile =
     checkpoint_files [''checkpoints'', ''1000''] (stats_of (learner_at 1000))
       policyFile valueFile"

text \<open>The file system after the learner at 1000 timesteps has saved into an empty working
  directory, and the same with the stats of a given learner in the stats file.\<close>

definition fs_saved :: "Learner \<Rightarrow> fs" where
  "fs_saved st =
     ([''checkpoints''], EDir) #
     checkpoint_files [''checkpoints'', ''1000''] (stats_of st) (TorchSeq [[1, 2], [3]])
       (TorchSeq [[4]])"

text \<open>Load folders: two numbered checkpoints beside a folder with a name that is no number
  and a file with a numeric name; no numbered folder; a single folder named \<open>5x\<close>; the
  checkpoint of the learner at 100 timesteps beside a folder named \<open>200_backup\<close>.\<close>

definition fs_mixed :: fs where
  "fs_mixed = [([''checkpoints''], EDir), ([''checkpoints'', ''100''], EDir),
     ([''checkpoints'', ''2000''], EDir), ([''checkpoints'', ''notes''], EDir),
     ([''checkpoints'', ''9999''], EFile (Other ''a file, not a folder''))]"

definition fs_unnumbered :: fs where
  "fs_unnumbered = [([''checkpoints''], EDir), ([''checkpoints'', ''notes''], EDir)]"

definition fs_suffix :: fs where
  "fs_suffix = [([''checkpoints''], EDir), ([''checkpoints'', ''5x''], EDir)]"

definition fs_backup :: fs where
  "fs_backup =
     ([''checkpoints''], EDir) #
     checkpoint_files [''checkpoints'', ''100''] (stats_of (learner_at 100))
       (TorchSeq [[1, 2], [3]]) (TorchSeq [[4]])
     @ [([''checkpoints'', ''200_backup''], EDir)]"


section \<open>The combined loss\<close>

text \<open>With a minibatch of the size of the batch the ratio is 1; with a smaller one it
  is 0.\<close>

lemma batchSizeRatio_full_batch:
  "batchSize cfg \<noteq> 0 \<Longrightarrow> miniBatchSize cfg = batchSize cfg \<Longrightarrow> batchSizeRatio cfg = Some 1"
  by (simp add: batchSizeRatio_def cpp_div_def sgn_if)

lemma batchSizeRatio_smaller_minibatch:
  "0 \<le> miniBatchSize cfg \<Longrightarrow> miniBatchSize cfg < batchSize cfg \<Longrightarrow> batchSizeRatio cfg = Some 0"
  by (simp add: batchSizeRatio_def cpp_div_def)

text \<open>
  C1.  The claim: in every minibatch iteration the loss passed to backprop is
  \<open>(policyLoss - entCoef * entropy)\<close> times the ratio \<open>miniBatchSize / batchSize\<close>, also when
  the minibatch is smaller than the batch.  The code forms the ratio by integer division,
  so with a minibatch of half the batch the ratio is 0 and the loss is 0 whatever the policy
  loss and the entropy are; the claimed value at policy loss 1 and entropy 0 is \<open>1/2\<close>.
\<close>

theorem ppoLoss_half_batch_is_zero:
  "PPOLearner_config half_batch_config = half_batch_config
   \<and> (\<forall>policyLoss entropy. ppoLoss half_batch_config policyLoss entropy = Some 0)
   \<and> batchSizeRatio half_batch_config = Some 0
   \<and> ppoLoss half_batch_config 1 0
        \<noteq> Some ((1 - entCoef half_batch_config * 0)
                  * (real_of_int (miniBatchSize half_batch_config)
                     / real_of_int (batchSize half_batch_config)))"
  by (simp add: ppoLoss_def batchSizeRatio_def cpp_div_def half_batch_config_def
        PPOLearner_config_def)


section \<open>The clip fraction\<close>

lemma clip_indicator_outside:
  "clip_indicator cfg r = (if r < 1 - clipRange cfg \<or> 1 + clipRange cfg < r then 1 else 0)"
  unfolding clip_indicator_def by (auto simp: abs_if)

lemma sum_list_indicator:
  "sum_list (map (\<lambda>x. if P x then 1 else (0::real)) xs) = real (length (filter P xs))"
  by (induction xs) auto

text \<open>
  C8.  The clip fraction of a minibatch is the number of ratios strictly outside
  \<open>[1 - \<epsilon>, 1 + \<epsilon>]\<close> divided by the number of ratios: a ratio inside the interval or exactly
  at \<open>1 - \<epsilon>\<close> or \<open>1 + \<epsilon>\<close> contributes 0, a ratio strictly outside contributes 1.
\<close>

theorem clipFraction_counts_strictly_outside:
  "(ratio \<noteq> [] \<longrightarrow>
      clipFraction cfg ratio =
        Some (real (length (filter (\<lambda>r. r < 1 - clipRange cfg \<or> 1 + clipRange cfg < r) ratio))
              / real (length ratio)))
   \<and> (1 - clipRange cfg \<le> r \<and> r \<le> 1 + clipRange cfg \<longrightarrow> clip_indicator cfg r = 0)
   \<and> (0 \<le> clipRange cfg \<longrightarrow>
        clip_indicator cfg (1 - clipRange cfg) = 0 \<and> clip_indicator cfg (1 + clipRange cfg) = 0)
   \<and> (r < 1 - clipRange cfg \<or> 1 + clipRange cfg < r \<longrightarrow> clip_indicator cfg r = 1)"
proof (intro conjI impI)
  assume "ratio \<noteq> []"
  then show "clipFraction cfg ratio =
        Some (real (length (filter (\<lambda>r. r < 1 - clipRange cfg \<or> 1 + clipRange cfg < r) ratio))
              / real (length ratio))"
    by (simp add: clipFraction_def mean_def fdiv_def clip_indicator_outside [abs_def]
          sum_list_indicator)
next
  assume "1 - clipRange cfg \<le> r \<and> r \<le> 1 + clipRange cfg"
  then show "clip_indicator cfg r = 0" by (simp add: clip_indicator_outside)
next
  assume "0 \<le> clipRange cfg"
  then show "clip_indicator cfg (1 - clipRange cfg) = 0"
    and "clip_indicator cfg (1 + clipRange cfg) = 0"
    by (simp_all add: clip_indicator_outside)
next
  assume "r < 1 - clipRange cfg \<or> 1 + clipRange cfg < r"
  then show "clip_indicator cfg r = 1" by (simp add: clip_indicator_outside)
qed

theorem clipFraction_counts_strictly_outside_witness:
  "clipFraction half_batch_config [4 / 5, 6 / 5, 1, 13 / 10, 1 / 2] = Some (2 / 5)
   \<and> clip_indicator half_batch_config 1 = 0
   \<and> clip_indicator half_batch_config (4 / 5) = 0
   \<and> clip_indicator half_batch_config (6 / 5) = 0
   \<and> clip_indicator half_batch_config (13 / 10) = 1"
proof -
  have eps: "clipRange half_batch_config = 1 / 5"
    by (simp add: half_batch_config_def)
  from clipFraction_counts_strictly_outside
         [of "[4 / 5, 6 / 5, 1, 13 / 10, 1 / 2]" half_batch_config 1]
       clipFraction_counts_strictly_outside [of "[]" half_batch_config "13 / 10"]
  show ?thesis
    by (simp add: eps)
qed


section \<open>The reported means\<close>










section \<open>The episode accumulators of a game instance\<close>

text \<open>
  C9.  On every step the episode reward grows by the step's reward per player and the
  episode length by one; exactly when the step result's done flag is set, the two values
  are added to the running averages of episode reward and episode length and both
  accumulators are set to zero; otherwise the running averages stay as they were.  (For a
  step with at least one player and a reward for each, and a callback, if any, that leaves
  these four members alone.)
\<close>

theorem Step_episode_accumulators:
  assumes players: "0 < playerAmount env"
      "playerAmount env \<le> int (length (reward (gym_Step env)))"
    and callback: "\<forall>cb g. stepCallback env = Some cb \<longrightarrow>
               curEpRew (cb g) = curEpRew g \<and> curEPLen (cb g) = curEPLen g
               \<and> avgEpRew (cb g) = avgEpRew g \<and> avgEpLen (cb g) = avgEpLen g"
  shows "\<exists>gi' r. Step env gi = Some (gi', r) \<and>
           (if done_flag (gym_Step env)
            then avgEpRew gi' = avg_plus env (avgEpRew gi) (curEpRew gi + step_reward env)
               \<and> avgEpLen gi' = avg_plus env (avgEpLen gi) (real_of_int (curEPLen gi + 1))
               \<and> curEpRew gi' = 0 \<and> curEPLen gi' = 0
            else avgEpRew gi' = avgEpRew gi \<and> avgEpLen gi' = avgEpLen gi
               \<and> curEpRew gi' = curEpRew gi + step_reward env
               \<and> curEPLen gi' = curEPLen gi + 1)"
proof (cases "stepCallback env")
  case None
  with players show ?thesis
    by (simp add: Step_def Let_def step_reward_def)
next
  case (Some f)
  with callback have keep:
    "\<And>g. curEpRew (f g) = curEpRew g" "\<And>g. curEPLen (f g) = curEPLen g"
    "\<And>g. avgEpRew (f g) = avgEpRew g" "\<And>g. avgEpLen (f g) = avgEpLen g"
    by auto
  from players Some show ?thesis
    by (simp add: Step_def Let_def step_reward_def keep)
qed

theorem Step_episode_accumulators_witness:
  "(\<exists>gi' r. Step (two_player_env True) game_mid_episode = Some (gi', r)
       \<and> avgEpRew gi' = [12] \<and> avgEpLen gi' = [4] \<and> curEpRew gi' = 0 \<and> curEPLen gi' = 0)
   \<and> (\<exists>gi' r. Step (two_player_env False) game_mid_episode = Some (gi', r)
       \<and> avgEpRew gi' = [] \<and> avgEpLen gi' = [] \<and> curEpRew gi' = 12 \<and> curEPLen gi' = 4)"
proof -
  have p: "0 < playerAmount (two_player_env d)"
    "playerAmount (two_player_env d) \<le> int (length (reward (gym_Step (two_player_env d))))" for d
    by (simp_all add: two_player_env_def)
  have k: "\<forall>cb g. stepCallback (two_player_env d) = Some cb \<longrightarrow>
               curEpRew (cb g) = curEpRew g \<and> curEPLen (cb g) = curEPLen g
               \<and> avgEpRew (cb g) = avgEpRew g \<and> avgEpLen (cb g) = avgEpLen g" for d
    by (auto simp add: two_player_env_def)
  have r: "step_reward (two_player_env d) = 2" for d
    by (simp add: step_reward_def two_player_env_def)
  have t: "done_flag (gym_Step (two_player_env True))"
    "\<not> done_flag (gym_Step (two_player_env False))"
    "avg_plus (two_player_env d) = (\<lambda>a v. a @ [v])" for d
    by (simp_all add: two_player_env_def)
  from Step_episode_accumulators [OF p k, of True game_mid_episode]
       Step_episode_accumulators [OF p k, of False game_mid_episode]
  show ?thesis
    by (simp add: r t game_mid_episode_def)
qed


section \<open>The device test\<close>

text \<open>
  C6.  The claim: when a CUDA device is requested, construction round-trips a tensor to the
  requested device and back, and is fatal if that fails.  The test moves the tensor to the
  member \<^verbatim>\<open>device\<close>, which still is the CPU device: on a machine where CUDA is reported
  available and a transfer to the CUDA device fails, construction goes on with the CUDA
  device and no error.
\<close>

theorem Learner_device_broken_gpu:
  "Learner_device broken_gpu config_cuda = Inr kCUDA
   \<and> \<not> tensor_to_ok broken_gpu kCUDA"
  by (simp add: Learner_device_def broken_gpu_def config_cuda_def)


theorem Learner_device_broken_gpu_witness:
  "cuda_is_available broken_gpu \<and> Learner_device broken_gpu config_cuda = Inr kCUDA"
  using Learner_device_broken_gpu by (simp add: broken_gpu_def)


section \<open>Errors of loading the networks\<close>

lemma msgs_distinct:
  "msg_file_missing f d \<noteq> msg_size_mismatch p b a"
  "msg_file_missing f d \<noteq> msg_load_failed w"
  "msg_file_missing f d \<noteq> msg_optim_failed w"
  "msg_size_mismatch p b a \<noteq> msg_load_failed w"
  "msg_size_mismatch p b a \<noteq> msg_optim_failed w"
  by (simp_all add: msg_file_missing_def msg_size_mismatch_def msg_load_failed_def
        msg_optim_failed_def)

lemma TorchLoadSaveSeq_load_Inr:
  "TorchLoadSaveSeq_load io sq fs p = Inr sq' \<Longrightarrow>
     torch_load io sq (read_file fs p) = Inr sq' \<and> GetSeqSizes sq' = GetSeqSizes sq"
  by (auto simp: TorchLoadSaveSeq_load_def Let_def split: sum.splits if_splits)

lemma TorchLoadSaveAll_load_Inr:
  "TorchLoadSaveAll_load io l fs folder = Inr l' \<Longrightarrow>
     first_missing fs folder = None
     \<and> torch_load io (policy l) (read_file fs (folder @ [''PPO_POLICY.lt''])) = Inr (policy l')
     \<and> GetSeqSizes (policy l') = GetSeqSizes (policy l)
     \<and> torch_load io (valueNet l) (read_file fs (folder @ [''PPO_VALUE_NET.lt'']))
         = Inr (valueNet l')
     \<and> GetSeqSizes (valueNet l') = GetSeqSizes (valueNet l)
     \<and> cumulativeModelUpdates l' = cumulativeModelUpdates l"
  by (auto simp: TorchLoadSaveAll_load_def FILE_NAMES_def split: option.splits sum.splits
        dest: TorchLoadSaveSeq_load_Inr)

text \<open>
  C5.  Loading never succeeds with a network of other parameter counts: a load that
  succeeds has deserialised both network files to networks with the parameter counts of the
  current ones, and when the policy's or the value network's file deserialises to a network
  whose parameter counts differ, the load is fatal with the size message.  A missing file is fatal with
  the message naming the file, a failing deserialisation with the message carrying the
  exception, and the three kinds of message (and the optimisers' one) are never equal.
\<close>

theorem LoadFrom_errors:
  "(LoadFrom io l fs folder = Inr l' \<longrightarrow>
       torch_load io (policy l) (read_file fs (folder @ [''PPO_POLICY.lt''])) = Inr (policy l')
     \<and> GetSeqSizes (policy l') = GetSeqSizes (policy l)
     \<and> torch_load io (valueNet l) (read_file fs (folder @ [''PPO_VALUE_NET.lt'']))
         = Inr (valueNet l')
     \<and> GetSeqSizes (valueNet l') = GetSeqSizes (valueNet l))
   \<and> (is_directory fs folder \<and> first_missing fs folder = None
       \<and> torch_load io (policy l) (read_file fs (folder @ [''PPO_POLICY.lt''])) = Inr sq
       \<and> GetSeqSizes sq \<noteq> GetSeqSizes (policy l) \<longrightarrow>
       LoadFrom io l fs folder =
         Inl (msg_size_mismatch (folder @ [''PPO_POLICY.lt''])
                (GetSeqSizes (policy l)) (GetSeqSizes sq)))
   \<and> (is_directory fs folder \<and> first_missing fs folder = None
       \<and> TorchLoadSaveSeq_load io (policy l) fs (folder @ [''PPO_POLICY.lt'']) = Inr sq
       \<and> torch_load io (valueNet l) (read_file fs (folder @ [''PPO_VALUE_NET.lt''])) = Inr sq'
       \<and> GetSeqSizes sq' \<noteq> GetSeqSizes (valueNet l) \<longrightarrow>
       LoadFrom io l fs folder =
         Inl (msg_size_mismatch (folder @ [''PPO_VALUE_NET.lt''])
                (GetSeqSizes (valueNet l)) (GetSeqSizes sq')))
   \<and> (is_directory fs folder \<and> first_missing fs folder = Some fileName \<longrightarrow>
       LoadFrom io l fs folder = Inl (msg_file_missing fileName folder))
   \<and> (is_directory fs folder \<and> first_missing fs folder = None
       \<and> torch_load io (policy l) (read_file fs (folder @ [''PPO_POLICY.lt''])) = Inl what \<longrightarrow>
       LoadFrom io l fs folder = Inl (msg_load_failed what))
   \<and> msg_file_missing f d \<noteq> msg_size_mismatch p b a
   \<and> msg_file_missing f d \<noteq> msg_load_failed w
   \<and> msg_file_missing f d \<noteq> msg_optim_failed w
   \<and> msg_size_mismatch p b a \<noteq> msg_load_failed w
   \<and> msg_size_mismatch p b a \<noteq> msg_optim_failed w"
proof (intro conjI impI)
  assume "LoadFrom io l fs folder = Inr l'"
  then have "TorchLoadSaveAll_load io l fs folder = Inr l'"
    by (simp add: LoadFrom_def split: if_splits)
  then show
    "torch_load io (policy l) (read_file fs (folder @ [''PPO_POLICY.lt''])) = Inr (policy l')"
    and "GetSeqSizes (policy l') = GetSeqSizes (policy l)"
    and "torch_load io (valueNet l) (read_file fs (folder @ [''PPO_VALUE_NET.lt'']))
           = Inr (valueNet l')"
    and "GetSeqSizes (valueNet l') = GetSeqSizes (valueNet l)"
    using TorchLoadSaveAll_load_Inr by blast+
next
  assume "is_directory fs folder \<and> first_missing fs folder = None
       \<and> torch_load io (policy l) (read_file fs (folder @ [''PPO_POLICY.lt''])) = Inr sq
       \<and> GetSeqSizes sq \<noteq> GetSeqSizes (policy l)"
  then show "LoadFrom io l fs folder =
         Inl (msg_size_mismatch (folder @ [''PPO_POLICY.lt''])
                (GetSeqSizes (policy l)) (GetSeqSizes sq))"
    by (auto simp: LoadFrom_def TorchLoadSaveAll_load_def TorchLoadSaveSeq_load_def
          FILE_NAMES_def Let_def)
next
  assume "is_directory fs folder \<and> first_missing fs folder = None
       \<and> TorchLoadSaveSeq_load io (policy l) fs (folder @ [''PPO_POLICY.lt'']) = Inr sq
       \<and> torch_load io (valueNet l) (read_file fs (folder @ [''PPO_VALUE_NET.lt''])) = Inr sq'
       \<and> GetSeqSizes sq' \<noteq> GetSeqSizes (valueNet l)"
  then show "LoadFrom io l fs folder =
         Inl (msg_size_mismatch (folder @ [''PPO_VALUE_NET.lt''])
                (GetSeqSizes (valueNet l)) (GetSeqSizes sq'))"
    by (auto simp: LoadFrom_def TorchLoadSaveAll_load_def FILE_NAMES_def
          TorchLoadSaveSeq_load_def [of io "valueNet l"] Let_def)
next
  assume "is_directory fs folder \<and> first_missing fs folder = Some fileName"
  then show "LoadFrom io l fs folder = Inl (msg_file_missing fileName folder)"
    by (simp add: LoadFrom_def TorchLoadSaveAll_load_def)
next
  assume "is_directory fs folder \<and> first_missing fs folder = None
       \<and> torch_load io (policy l) (read_file fs (folder @ [''PPO_POLICY.lt''])) = Inl what"
  then show "LoadFrom io l fs folder = Inl (msg_load_failed what)"
    by (simp add: LoadFrom_def TorchLoadSaveAll_load_def TorchLoadSaveSeq_load_def
          FILE_NAMES_def Let_def)
qed (rule msgs_distinct)+

theorem LoadFrom_errors_witness:
  "LoadFrom io_ref (ppo learner_new) (ckpt (TorchSeq [[1, 2], [3]]) (TorchSeq [[4]]))
       [''checkpoints'', ''1000'']
     = Inr ((ppo (learner_at 1000))\<lparr>cumulativeModelUpdates := 0\<rparr>)
   \<and> GetSeqSizes (policy ((ppo (learner_at 1000))\<lparr>cumulativeModelUpdates := 0\<rparr>))
       = GetSeqSizes (policy (ppo learner_new))
   \<and> LoadFrom io_ref (ppo learner_new) (ckpt (TorchSeq [[1, 2, 3]]) (TorchSeq [[4]]))
       [''checkpoints'', ''1000'']
     = Inl (msg_size_mismatch [''checkpoints'', ''1000'', ''PPO_POLICY.lt''] [2, 1] [3])
   \<and> LoadFrom io_ref (ppo learner_new) (ckpt (TorchSeq [[1, 2], [3]]) (TorchSeq [[4, 4]]))
       [''checkpoints'', ''1000'']
     = Inl (msg_size_mismatch [''checkpoints'', ''1000'', ''PPO_VALUE_NET.lt''] [1] [2])
   \<and> LoadFrom io_ref (ppo learner_new)
       (remove_all (ckpt (TorchSeq [[1, 2], [3]]) (TorchSeq [[4]]))
          [''checkpoints'', ''1000'', ''PPO_VALUE_NET.lt''])
       [''checkpoints'', ''1000'']
     = Inl (msg_file_missing ''PPO_VALUE_NET.lt'' [''checkpoints'', ''1000''])
   \<and> LoadFrom io_ref (ppo learner_new) (ckpt (Other ''truncated'') (TorchSeq [[4]]))
       [''checkpoints'', ''1000'']
     = Inl (msg_load_failed ''not a serialised module'')"
proof -
  let ?l = "ppo learner_new" and ?d = "[''checkpoints'', ''1000'']"
  let ?ok = "ckpt (TorchSeq [[1, 2], [3]]) (TorchSeq [[4]])"
  let ?badp = "ckpt (TorchSeq [[1, 2, 3]]) (TorchSeq [[4]])"
  let ?badv = "ckpt (TorchSeq [[1, 2], [3]]) (TorchSeq [[4, 4]])"
  let ?miss = "remove_all ?ok [''checkpoints'', ''1000'', ''PPO_VALUE_NET.lt'']"
  let ?junk = "ckpt (Other ''truncated'') (TorchSeq [[4]])"
  have h1: "LoadFrom io_ref ?l ?ok ?d
      = Inr ((ppo (learner_at 1000))\<lparr>cumulativeModelUpdates := 0\<rparr>)"
    by code_simp
  have h2: "is_directory ?badp ?d \<and> first_missing ?badp ?d = None
       \<and> torch_load io_ref (policy ?l) (read_file ?badp (?d @ [''PPO_POLICY.lt'']))
           = Inr [[1, 2, 3]]
       \<and> GetSeqSizes [[1, 2, 3]] \<noteq> GetSeqSizes (policy ?l)"
    by code_simp
  have h3: "is_directory ?badv ?d \<and> first_missing ?badv ?d = None
       \<and> TorchLoadSaveSeq_load io_ref (policy ?l) ?badv (?d @ [''PPO_POLICY.lt''])
           = Inr [[1, 2], [3]]
       \<and> torch_load io_ref (valueNet ?l) (read_file ?badv (?d @ [''PPO_VALUE_NET.lt'']))
           = Inr [[4, 4]]
       \<and> GetSeqSizes [[4, 4]] \<noteq> GetSeqSizes (valueNet ?l)"
    by code_simp
  have h4: "is_directory ?miss ?d \<and> first_missing ?miss ?d = Some ''PPO_VALUE_NET.lt''"
    by code_simp
  have h5: "is_directory ?junk ?d \<and> first_missing ?junk ?d = None
       \<and> torch_load io_ref (policy ?l) (read_file ?junk (?d @ [''PPO_POLICY.lt'']))
           = Inl ''not a serialised module''"
    by code_simp
  have sizes: "GetSeqSizes (policy ?l) = [2, 1]" "GetSeqSizes (valueNet ?l) = [1]"
    "GetSeqSizes [[1, 2, 3 :: real]] = [3]" "GetSeqSizes [[4, 4 :: real]] = [2]"
    by code_simp+
  from LoadFrom_errors [where io = io_ref and l = ?l and fs = ?ok and folder = ?d
              and l' = "(ppo (learner_at 1000))\<lparr>cumulativeModelUpdates := 0\<rparr>"] h1
  have t1: "GetSeqSizes (policy ((ppo (learner_at 1000))\<lparr>cumulativeModelUpdates := 0\<rparr>))
       = GetSeqSizes (policy ?l)"
    by blast
  from LoadFrom_errors [where io = io_ref and l = ?l and fs = ?badp and folder = ?d
              and sq = "[[1, 2, 3]]"] h2
  have t2: "LoadFrom io_ref ?l ?badp ?d
     = Inl (msg_size_mismatch (?d @ [''PPO_POLICY.lt'']) (GetSeqSizes (policy ?l))
              (GetSeqSizes [[1, 2, 3]]))"
    by blast
  from LoadFrom_errors [where io = io_ref and l = ?l and fs = ?badv and folder = ?d
              and sq = "[[1, 2], [3]]" and sq' = "[[4, 4]]"] h3
  have t3: "LoadFrom io_ref ?l ?badv ?d
     = Inl (msg_size_mismatch (?d @ [''PPO_VALUE_NET.lt'']) (GetSeqSizes (valueNet ?l))
              (GetSeqSizes [[4, 4]]))"
    by blast
  from LoadFrom_errors [where io = io_ref and l = ?l and fs = ?miss and folder = ?d
              and fileName = "''PPO_VALUE_NET.lt''"] h4
  have t4: "LoadFrom io_ref ?l ?miss ?d = Inl (msg_file_missing ''PPO_VALUE_NET.lt'' ?d)"
    by blast
  from LoadFrom_errors [where io = io_ref and l = ?l and fs = ?junk and folder = ?d
              and what = "''not a serialised module''"] h5
  have t5: "LoadFrom io_ref ?l ?junk ?d = Inl (msg_load_failed ''not a serialised module'')"
    by blast
  from h1 t1 t2 t3 t4 t5 show ?thesis
    by (simp add: sizes)
qed


section \<open>Choosing the checkpoint to load\<close>

lemma RS_MAX_max: "RS_MAX a b = max a b"
  by (simp add: RS_MAX_def max_def)

lemma Load_step_ge: "h \<le> Load_step h ent"
  by (cases ent) (simp add: Load_step_def RS_MAX_max split: option.splits)

lemma foldl_Load_step_ge: "h \<le> foldl Load_step h entries"
proof (induction entries arbitrary: h)
  case Nil
  show ?case by simp
next
  case (Cons ent entries)
  have "h \<le> Load_step h ent" by (rule Load_step_ge)
  also have "\<dots> \<le> foldl Load_step (Load_step h ent) entries" by (rule Cons.IH)
  finally show ?case by simp
qed

lemma foldl_Load_step_upper:
  "(name, True) \<in> set entries \<Longrightarrow> stoll name = Some v \<Longrightarrow> v \<le> foldl Load_step h entries"
proof (induction entries arbitrary: h)
  case Nil
  then show ?case by simp
next
  case (Cons ent entries)
  show ?case
  proof (cases "ent = (name, True)")
    case True
    with Cons.prems have "v \<le> Load_step h ent"
      by (simp add: Load_step_def RS_MAX_max)
    also have "\<dots> \<le> foldl Load_step (Load_step h ent) entries"
      by (rule foldl_Load_step_ge)
    finally show ?thesis by simp
  next
    case False
    with Cons.prems have "(name, True) \<in> set entries" by auto
    from Cons.IH [OF this Cons.prems(2)] show ?thesis by simp
  qed
qed

lemma foldl_Load_step_mem:
  "foldl Load_step h entries = h
   \<or> (\<exists>name. (name, True) \<in> set entries \<and> stoll name = Some (foldl Load_step h entries))"
proof (induction entries arbitrary: h)
  case Nil
  show ?case by simp
next
  case (Cons ent entries)
  obtain name isdir where ent: "ent = (name, isdir)" by (cases ent)
  have step: "Load_step h ent = h \<or> (isdir \<and> stoll name = Some (Load_step h ent))"
    by (auto simp: ent Load_step_def RS_MAX_def split: option.splits)
  from Cons.IH [of "Load_step h ent"] step show ?case
    by (auto simp: ent)
qed

lemma foldl_Load_step_filter:
  "foldl Load_step h (filter (\<lambda>(name, isdir). isdir \<and> stoll name \<noteq> None) entries)
     = foldl Load_step h entries"
  by (induction entries arbitrary: h)
     (auto simp: Load_step_def split: option.splits if_splits)

lemma directory_iterator_nonempty:
  "directory_iterator fs folder = Some entries \<Longrightarrow> folder \<noteq> []"
  by (auto simp: directory_iterator_def is_directory_def split: if_splits)

lemmas stoll_eval = stoll_def Let_def isspace_def isdigit_def digits_val_def digit_val_def
  INT64_MAX_def INT64_MIN_def to_string_def string_of_nat.simps

text \<open>
  C4.  The claim: the subdirectory with the numerically highest name is loaded, and
  subdirectories whose names do not parse as integers are ignored (with no numeric
  subdirectory, loading is skipped).  \<^verbatim>\<open>std::stoll\<close> reads a numeric prefix and leaves the
  rest of the name unread, and the folder to load is built from the number read.  A folder
  named \<open>200_backup\<close> beside the checkpoint \<open>100\<close> is read as 200: \<^verbatim>\<open>Load\<close> goes for the
  folder \<open>200\<close>, which does not exist, and ends in a fatal error in both revisions, where
  without the stray folder it loads the checkpoint \<open>100\<close>.  A single folder named \<open>5x\<close> is
  read as 5 and is fatal in the same way, where the claim has loading skipped.
\<close>

theorem Load_reads_numeric_prefix:
  "directory_iterator fs_backup (checkpointLoadFolder config_same)
     = Some [(''100'', True), (''200_backup'', True)]
   \<and> stoll ''200_backup'' = Some 200
   \<and> Load_folder config_same fs_backup = Some [''checkpoints'', ''200'']
   \<and> \<not> exists_path fs_backup [''checkpoints'', ''200'']
   \<and> Learner_resume io_ref config_same learner_new fs_backup
       = Inl (msg_cant_open ''Learner::LoadStats(): ''
                [''checkpoints'', ''200'', ''RUNNING_STATS.json''])
   \<and> Learner_resume_v0 io_ref config_same learner_new fs_backup
       = Inl (msg_cant_open ''Learner::SaveStats(): ''
                [''checkpoints'', ''200'', ''RUNNING_STATS.json''])
   \<and> Learner_resume io_ref config_same learner_new
         (remove_all fs_backup [''checkpoints'', ''200_backup''])
       = Inr (learner_at 100, remove_all fs_backup [''checkpoints'', ''200_backup''])
   \<and> directory_iterator fs_suffix (checkpointLoadFolder config_same) = Some [(''5x'', True)]
   \<and> stoll ''5x'' = Some 5
   \<and> Load_folder config_same fs_suffix = Some [''checkpoints'', ''5'']
   \<and> \<not> exists_path fs_suffix [''checkpoints'', ''5'']
   \<and> Learner_resume io_ref config_same learner_new fs_suffix
       = Inl (msg_cant_open ''Learner::LoadStats(): ''
                [''checkpoints'', ''5'', ''RUNNING_STATS.json''])"
  by code_simp

text \<open>
  Where every subdirectory name that \<^verbatim>\<open>std::stoll\<close> accepts is the decimal rendering of its
  value (as the names that \<^verbatim>\<open>Save\<close> writes are), the scan does what it is meant to do.  If
  some subdirectory has a value of at least 0, the folder chosen for loading is the
  subdirectory with the highest value; otherwise no folder is chosen and \<^verbatim>\<open>Load\<close> returns the
  learner as it was.  Entries that are not directories and subdirectories whose names
  \<^verbatim>\<open>std::stoll\<close> rejects do not influence the choice.
\<close>

lemma Load_selects_highest:
  assumes listing: "directory_iterator fs (checkpointLoadFolder config) = Some entries"
    and canon: "\<forall>(name, isdir) \<in> set entries.
                  \<forall>v. isdir \<and> stoll name = Some v \<longrightarrow> name = to_string v"
  shows "(if \<exists>(name, isdir) \<in> set entries. isdir \<and> (\<exists>v. stoll name = Some v \<and> 0 \<le> v)
          then \<exists>name v. (name, True) \<in> set entries \<and> stoll name = Some v \<and> 0 \<le> v
                 \<and> (\<forall>(name', isdir') \<in> set entries.
                       \<forall>v'. isdir' \<and> stoll name' = Some v' \<longrightarrow> v' \<le> v)
                 \<and> Load_folder config fs = Some (checkpointLoadFolder config @ [name])
          else Load_folder config fs = None \<and> Load io config st fs = Inr (st, fs))
         \<and> Load_highest config fs =
             Load_scan (filter (\<lambda>(name, isdir). isdir \<and> stoll name \<noteq> None) entries)"
proof -
  let ?H = "Load_scan entries"
  have high: "Load_highest config fs = ?H"
    using listing by (simp add: Load_highest_def)
  have ge: "- 1 \<le> ?H"
    unfolding Load_scan_def by (rule foldl_Load_step_ge)
  have upper: "v \<le> ?H" if "(name, True) \<in> set entries" "stoll name = Some v" for name v
    unfolding Load_scan_def using that by (rule foldl_Load_step_upper)
  have mem: "?H = - 1 \<or> (\<exists>name. (name, True) \<in> set entries \<and> stoll name = Some ?H)"
    unfolding Load_scan_def by (rule foldl_Load_step_mem)
  have ignored: "Load_highest config fs =
      Load_scan (filter (\<lambda>(name, isdir). isdir \<and> stoll name \<noteq> None) entries)"
    unfolding high Load_scan_def by (rule foldl_Load_step_filter [symmetric])
  have main: "if \<exists>(name, isdir) \<in> set entries. isdir \<and> (\<exists>v. stoll name = Some v \<and> 0 \<le> v)
          then \<exists>name v. (name, True) \<in> set entries \<and> stoll name = Some v \<and> 0 \<le> v
                 \<and> (\<forall>(name', isdir') \<in> set entries.
                       \<forall>v'. isdir' \<and> stoll name' = Some v' \<longrightarrow> v' \<le> v)
                 \<and> Load_folder config fs = Some (checkpointLoadFolder config @ [name])
          else Load_folder config fs = None \<and> Load io config st fs = Inr (st, fs)"
  proof (cases "\<exists>(name, isdir) \<in> set entries. isdir \<and> (\<exists>v. stoll name = Some v \<and> 0 \<le> v)")
    case True
    then obtain n0 v0 where n0: "(n0, True) \<in> set entries" "stoll n0 = Some v0" "0 \<le> v0"
      by auto
    from upper [OF n0(1,2)] n0(3) have pos: "0 \<le> ?H" by simp
    with mem obtain name where name: "(name, True) \<in> set entries" "stoll name = Some ?H"
      by auto
    with canon have "name = to_string ?H" by auto
    with pos high have sel: "Load_folder config fs = Some (checkpointLoadFolder config @ [name])"
      by (simp add: Load_folder_def Let_def)
    have "\<forall>(name', isdir') \<in> set entries.
            \<forall>v'. isdir' \<and> stoll name' = Some v' \<longrightarrow> v' \<le> ?H"
      using upper by auto
    with name pos sel True show ?thesis by auto
  next
    case False
    have "?H = - 1"
    proof (rule ccontr)
      assume ne: "?H \<noteq> - 1"
      with mem obtain name where name: "(name, True) \<in> set entries" "stoll name = Some ?H"
        by auto
      with False have "?H < 0" by force
      with ge ne show False by simp
    qed
    with high have none: "Load_folder config fs = None"
      by (simp add: Load_folder_def Let_def)
    moreover have "checkpointLoadFolder config \<noteq> []"
      using listing by (rule directory_iterator_nonempty)
    ultimately have "Load io config st fs = Inr (st, fs)"
      by (simp add: Load_def)
    with none False show ?thesis by simp
  qed
  from main ignored show ?thesis by (rule conjI)
qed

lemma Load_selects_highest_example:
  "directory_iterator fs_mixed (checkpointLoadFolder config_same)
     = Some [(''100'', True), (''2000'', True), (''notes'', True), (''9999'', False)]
   \<and> (\<exists>name v. (name, True) \<in> set [(''100'', True), (''2000'', True), (''notes'', True),
                                     (''9999'', False)]
         \<and> stoll name = Some v \<and> 0 \<le> v
         \<and> Load_folder config_same fs_mixed = Some (checkpointLoadFolder config_same @ [name]))
   \<and> Load_folder config_same fs_mixed = Some [''checkpoints'', ''2000'']
   \<and> directory_iterator fs_unnumbered (checkpointLoadFolder config_same)
       = Some [(''notes'', True)]
   \<and> Load_folder config_same fs_unnumbered = None
   \<and> Load io_ref config_same learner_new fs_unnumbered = Inr (learner_new, fs_unnumbered)"
proof -
  let ?es = "[(''100'', True), (''2000'', True), (''notes'', True), (''9999'', False)]"
  have l1: "directory_iterator fs_mixed (checkpointLoadFolder config_same) = Some ?es"
    by code_simp
  have c1: "\<forall>(name, isdir) \<in> set ?es.
              \<forall>v. isdir \<and> stoll name = Some v \<longrightarrow> name = to_string v"
    by (simp add: stoll_eval)
  have p1: "\<exists>(name, isdir) \<in> set ?es. isdir \<and> (\<exists>v. stoll name = Some v \<and> 0 \<le> v)"
    by (simp add: stoll_eval)
  have l2: "directory_iterator fs_unnumbered (checkpointLoadFolder config_same)
      = Some [(''notes'', True)]"
    by code_simp
  have c2: "\<forall>(name, isdir) \<in> set [(''notes'', True)].
              \<forall>v. isdir \<and> stoll name = Some v \<longrightarrow> name = to_string v"
    by (simp add: stoll_eval)
  have p2: "\<not> (\<exists>(name, isdir) \<in> set [(''notes'', True)].
                 isdir \<and> (\<exists>v. stoll name = Some v \<and> 0 \<le> v))"
    by (simp add: stoll_eval)
  have e1: "Load_folder config_same fs_mixed = Some [''checkpoints'', ''2000'']"
    by code_simp
  from Load_selects_highest [OF l1 c1, of io_ref learner_new] p1
  have t1: "\<exists>name v. (name, True) \<in> set ?es
         \<and> stoll name = Some v \<and> 0 \<le> v
         \<and> Load_folder config_same fs_mixed = Some (checkpointLoadFolder config_same @ [name])"
    by auto
  from Load_selects_highest [OF l2 c2, of io_ref learner_new] p2
  have t2: "Load_folder config_same fs_unnumbered = None
      \<and> Load io_ref config_same learner_new fs_unnumbered = Inr (learner_new, fs_unnumbered)"
    by simp
  from l1 t1 e1 l2 t2 show ?thesis by simp
qed


section \<open>Pruning old checkpoints\<close>

text \<open>With one folder for loading and saving, three saves that keep two checkpoints leave
  the two most recent ones, and a removal that fails is fatal.\<close>

lemma three_saves_same_folder:
  "checkpoint_dirs (three_saves config_same []) [''checkpoints''] = [''200'', ''300'']
   \<and> (case Save io_ref (\<lambda>p. None) config_same (learner_at 100) [] of
         Inl e \<Rightarrow> False
       | Inr fs1 \<Rightarrow>
           (case Save io_ref (\<lambda>p. None) config_same (learner_at 200) fs1 of
              Inl e \<Rightarrow> False
            | Inr fs2 \<Rightarrow>
                Save io_ref (\<lambda>p. Some ''Permission denied'') config_same (learner_at 300) fs2
                  = Inl (msg_remove_failed [''checkpoints'', ''100''] ''Permission denied'')))"
  by code_simp

text \<open>
  C3.  The claim: whenever a save leaves more numbered checkpoint directories than the
  retention count, the lowest-numbered one is deleted, so that with a retention count of 2
  three saves leave the two most recent checkpoints.  \<^verbatim>\<open>Save\<close> writes the checkpoint into
  \<^verbatim>\<open>checkpointSaveFolder\<close> and then counts and prunes \<^verbatim>\<open>checkpointLoadFolder\<close>: with a load
  folder other than the save folder, three saves with a retention count of 2 succeed and
  leave all three checkpoints.
\<close>

theorem three_saves_split_folders:
  "checkpointsToKeep config_split = 2
   \<and> checkpoint_dirs (three_saves config_split [([''pretrained''], EDir)]) [''checkpoints'']
       = [''100'', ''200'', ''300'']"
  by code_simp


section \<open>Resuming from a saved checkpoint\<close>

text \<open>In the newer revision the stats that \<^verbatim>\<open>SaveStats\<close> writes are the stats that
  \<^verbatim>\<open>LoadStats\<close> reads back.\<close>

lemma LoadStats_SaveStats:
  assumes "SaveStats config st fs p = Inr fs'"
  shows "\<exists>st'. LoadStats st0 fs' p = Inr st'
           \<and> totalTimesteps st' = totalTimesteps st \<and> totalEpochs st' = totalEpochs st
           \<and> cumulativeModelUpdates (ppo st') = cumulativeModelUpdates (ppo st)
           \<and> returnStats st' = returnStats st"
proof -
  from assms obtain j where w: "write_file fs p (StatsJson j) = Some fs'"
    and j: "cumulative_timesteps j = totalTimesteps st"
      "cumulative_model_updates j = cumulativeModelUpdates (ppo st)"
      "epoch j = totalEpochs st" "rrs_mean j = runningMean (returnStats st)"
      "rrs_var j = runningVariance (returnStats st)" "rrs_shape j = shape (returnStats st)"
      "rrs_count j = count (returnStats st)"
    by (auto simp: SaveStats_def Let_def split: option.splits)
  from w have "p \<noteq> []" and "fs' = AList.update p (EFile (StatsJson j)) fs"
    by (auto simp: write_file_def parent_ok_def split: if_splits)
  then have "read_file fs' p = Some (StatsJson j)"
    by (simp add: read_file_def update_conv')
  then show ?thesis
    by (simp add: LoadStats_def j WelfordRunningStat_new_def)
qed

text \<open>In the older revision no load ever changes the counters or the statistics.\<close>

lemma Load_v0_keeps_stats:
  assumes "Load_v0 io config st fs = Inr (st', fs')"
  shows "totalTimesteps st' = totalTimesteps st \<and> totalEpochs st' = totalEpochs st
         \<and> cumulativeModelUpdates (ppo st') = cumulativeModelUpdates (ppo st)
         \<and> returnStats st' = returnStats st"
  using assms
  by (auto simp: Load_v0_def LoadFrom_def split: if_splits option.splits sum.splits
        dest: TorchLoadSaveAll_load_Inr)

text \<open>
  C2.  The claim: saving and then resuming from the checkpoint reproduces the statistics
  and the counters.  In the older revision \<^verbatim>\<open>Load\<close> calls \<^verbatim>\<open>SaveStats\<close> where the newer one
  calls \<^verbatim>\<open>LoadStats\<close>: a learner saved at 1000 timesteps and resumed by a new learner leaves
  the new learner with its own counters and statistics (0 timesteps), and the checkpoint's
  stats file now holds those.
\<close>

theorem resume_v0_overwrites_stats:
  "Save_v0 io_ref config_same (learner_at 1000) [] = Inr (fs_saved (learner_at 1000))
   \<and> Learner_resume_v0 io_ref config_same learner_new (fs_saved (learner_at 1000))
       = Inr (learner_new\<lparr>ppo := (ppo (learner_at 1000))\<lparr>cumulativeModelUpdates := 0\<rparr>\<rparr>,
              fs_saved learner_new)
   \<and> totalTimesteps learner_new \<noteq> totalTimesteps (learner_at 1000)
   \<and> returnStats learner_new \<noteq> returnStats (learner_at 1000)"
  by code_simp

text \<open>The newer revision, at the same input, restores the saved learner.\<close>

lemma resume_restores_stats:
  "Learner_resume io_ref config_same learner_new (fs_saved (learner_at 1000))
     = Inr (learner_at 1000, fs_saved (learner_at 1000))"
  by code_simp

end
